theory Spec2Isabelle
  imports Main "HOL-Library.Sublist"
begin

section \<open>The contact-form service of \<^verbatim>\<open>main.py\<close>\<close>

text \<open>
  The service is one Python module: a pydantic model \<^verbatim>\<open>ContactForm\<close>, the functions
  \<^verbatim>\<open>get_brevo_client\<close> and \<^verbatim>\<open>send_email_via_brevo\<close>, and the route handler
  \<^verbatim>\<open>contact\<close>, decorated by \<^verbatim>\<open>@limiter.limit("1/hour")\<close> and registered by
  \<^verbatim>\<open>@app.post("/contact", status_code=200)\<close>.  Strings are \<open>string\<close>, the process
  environment and the JSON body are maps, exceptions are values of a sum type, and
  the calls made to the email provider are returned as a list beside the result.
  Time is the clock in whole seconds.
\<close>

subsection \<open>Data\<close>

type_synonym environ = "string \<rightharpoonup> string"

type_synonym json_body = "string \<rightharpoonup> string"

record ContactForm =
  name :: string
  email :: string
  subject :: string
  message :: string

datatype error_type = missing | string_too_short | string_too_long | value_error

type_synonym validation_errors = "(string \<times> error_type) list"

datatype json = JStr string | JArr "json list" | JObj "(string \<times> json) list"

datatype address = Address (addr_email: string) (addr_name: "string option")

record SendSmtpEmail =
  smtp_to :: "address list"
  smtp_sender :: address
  smtp_reply_to :: address
  smtp_subject :: string
  smtp_html_content :: string
  smtp_text_content :: string

datatype exn =
    HTTPException nat string
  | RateLimitExceeded
  | RequestValidationError validation_errors
  | ApiException string
  | PyException string

datatype provider_result = Sent string | RaisesApiException string | Raises string

record Request =
  client_host :: string
  body :: json_body

datatype response = Response (status_code: nat) (content: json)

text \<open>
  What the module imports and does not define is a parameter of the model:
  \<open>EmailStr\<close> is pydantic's address type (it returns the address it accepts, or
  \<open>None\<close>), \<open>getenv\<close> is the process environment, and \<open>send_transac_email\<close> is the
  provider's API, called with the API key of the client and the composed message.
  The exceptions \<open>ApiException\<close> and \<open>PyException\<close> (any other Python exception)
  carry the text that \<^verbatim>\<open>str(e)\<close> gives.
\<close>

record ext =
  EmailStr :: "string \<Rightarrow> string option"
  getenv :: environ
  send_transac_email :: "string \<Rightarrow> SendSmtpEmail \<Rightarrow> provider_result"

subsection \<open>\<^verbatim>\<open>ContactForm\<close>: the field constraints (lines 39--43)\<close>

text \<open>
  \<^verbatim>\<open>Field(..., min_length=lo, max_length=hi)\<close>: the field is required, and its length
  is checked against both bounds.
\<close>

definition str_field :: "nat \<Rightarrow> nat \<Rightarrow> string \<Rightarrow> json_body \<Rightarrow> validation_errors" where
  "str_field lo hi f raw =
     (case raw f of
        None \<Rightarrow> [(f, missing)]
      | Some s \<Rightarrow>
          if length s < lo then [(f, string_too_short)]
          else if hi < length s then [(f, string_too_long)]
          else [])"

definition email_field :: "(string \<Rightarrow> string option) \<Rightarrow> string \<Rightarrow> json_body \<Rightarrow> validation_errors" where
  "email_field E f raw =
     (case raw f of
        None \<Rightarrow> [(f, missing)]
      | Some s \<Rightarrow> (case E s of None \<Rightarrow> [(f, value_error)] | Some _ \<Rightarrow> []))"

definition field_errors :: "(string \<Rightarrow> string option) \<Rightarrow> json_body \<Rightarrow> validation_errors" where
  "field_errors E raw =
     str_field 1 100 ''name'' raw @ email_field E ''email'' raw
     @ str_field 1 200 ''subject'' raw @ str_field 1 5000 ''message'' raw"

definition text_of :: "string option \<Rightarrow> string" where
  "text_of v = (case v of None \<Rightarrow> [] | Some s \<Rightarrow> s)"

definition validate :: "(string \<Rightarrow> string option) \<Rightarrow> json_body \<Rightarrow> validation_errors + ContactForm" where
  "validate E raw =
     (if field_errors E raw = []
      then Inr \<lparr>name = text_of (raw ''name''),
                email = text_of (E (text_of (raw ''email''))),
                subject = text_of (raw ''subject''),
                message = text_of (raw ''message'')\<rparr>
      else Inl (field_errors E raw))"

subsection \<open>\<^verbatim>\<open>get_brevo_client\<close> and \<^verbatim>\<open>send_email_via_brevo\<close> (lines 56--119)\<close>

definition get_brevo_client :: "environ \<Rightarrow> exn + string" where
  "get_brevo_client env =
     (case env ''BREVO_API_KEY'' of
        None \<Rightarrow> Inl (PyException ''BREVO_API_KEY not found in environment variables'')
      | Some api_key \<Rightarrow>
          if api_key = []
          then Inl (PyException ''BREVO_API_KEY not found in environment variables'')
          else Inr api_key)"

definition getenv_default :: "environ \<Rightarrow> string \<Rightarrow> string \<Rightarrow> string" where
  "getenv_default env k d = (case env k of None \<Rightarrow> d | Some v \<Rightarrow> v)"

definition nl :: string where
  "nl = [CHR 0x0A]"

definition html_content :: "ContactForm \<Rightarrow> string" where
  "html_content contact_data =
     nl @ ''        <html>''
     @ nl @ ''            <body>''
     @ nl @ ''                <h2>New Contact Form Submission</h2>''
     @ nl @ ''                <p><strong>From:</strong> '' @ name contact_data @ ''</p>''
     @ nl @ ''                <p><strong>Email:</strong> '' @ email contact_data @ ''</p>''
     @ nl @ ''                <p><strong>Subject:</strong> '' @ subject contact_data @ ''</p>''
     @ nl @ ''                <hr>''
     @ nl @ ''                <h3>Message:</h3>''
     @ nl @ ''                <p>'' @ message contact_data @ ''</p>''
     @ nl @ ''            </body>''
     @ nl @ ''        </html>''
     @ nl @ ''        ''"

definition text_content :: "ContactForm \<Rightarrow> string" where
  "text_content contact_data =
     nl @ ''        New Contact Form Submission''
     @ nl
     @ nl @ ''        From: '' @ name contact_data
     @ nl @ ''        Email: '' @ email contact_data
     @ nl @ ''        Subject: '' @ subject contact_data
     @ nl
     @ nl @ ''        Message:''
     @ nl @ ''        '' @ message contact_data
     @ nl @ ''        ''"

definition send_smtp_email :: "environ \<Rightarrow> ContactForm \<Rightarrow> SendSmtpEmail" where
  "send_smtp_email env contact_data =
     \<lparr>smtp_to = [Address (getenv_default env ''RECIPIENT_EMAIL'' ''dumilakshan4878@gmail.com'') None],
      smtp_sender = Address (getenv_default env ''SENDER_EMAIL'' ''noreply@yourdomain.com'')
                            (Some (getenv_default env ''SENDER_NAME'' ''Contact Form'')),
      smtp_reply_to = Address (email contact_data) (Some (name contact_data)),
      smtp_subject = ''Contact Form: '' @ subject contact_data,
      smtp_html_content = html_content contact_data,
      smtp_text_content = text_content contact_data\<rparr>"

text \<open>
  The body of the \<^verbatim>\<open>try\<close>, then the two \<^verbatim>\<open>except\<close> clauses.  The second component is
  the list of calls made to the provider.
\<close>

definition send_email_via_brevo :: "ext \<Rightarrow> ContactForm \<Rightarrow> (exn + string) \<times> SendSmtpEmail list" where
  "send_email_via_brevo x contact_data =
     (case get_brevo_client (getenv x) of
        Inl (ApiException e) \<Rightarrow> (Inl (HTTPException 500 (''Failed to send email: '' @ e)), [])
      | Inl (PyException e) \<Rightarrow> (Inl (HTTPException 500 (''An error occurred: '' @ e)), [])
      | Inl e \<Rightarrow> (Inl e, [])
      | Inr api_instance \<Rightarrow>
          (let m = send_smtp_email (getenv x) contact_data in
           case send_transac_email x api_instance m of
             Sent api_response \<Rightarrow> (Inr api_response, [m])
           | RaisesApiException e \<Rightarrow> (Inl (HTTPException 500 (''Failed to send email: '' @ e)), [m])
           | Raises e \<Rightarrow> (Inl (HTTPException 500 (''An error occurred: '' @ e)), [m])))"

subsection \<open>The handler \<^verbatim>\<open>contact\<close> (lines 133--160)\<close>

definition success_body :: "ContactForm \<Rightarrow> json" where
  "success_body contact_form =
     JObj [(''status'', JStr ''success''),
           (''message'', JStr ''Your message has been sent successfully!''),
           (''data'', JObj [(''name'', JStr (name contact_form)),
                           (''email'', JStr (email contact_form)),
                           (''subject'', JStr (subject contact_form))])]"

definition contact :: "ext \<Rightarrow> ContactForm \<Rightarrow> (exn + json) \<times> SendSmtpEmail list" where
  "contact x contact_form =
     (case send_email_via_brevo x contact_form of
        (Inr result, calls) \<Rightarrow> (Inr (success_body contact_form), calls)
      | (Inl (HTTPException s d), calls) \<Rightarrow> (Inl (HTTPException s d), calls)
      | (Inl (ApiException e), calls) \<Rightarrow>
          (Inl (HTTPException 500 (''An unexpected error occurred: '' @ e)), calls)
      | (Inl (PyException e), calls) \<Rightarrow>
          (Inl (HTTPException 500 (''An unexpected error occurred: '' @ e)), calls)
      | (Inl e, calls) \<Rightarrow> (Inl e, calls))"

subsection \<open>The rate limiter\<close>

text \<open>
  Modelled from the spec: the limiter behind \<^verbatim>\<open>Limiter(key_func=get_remote_address)\<close>
  and \<^verbatim>\<open>@limiter.limit("1/hour")\<close> is the slowapi package, which is not part of the
  module.  The spec (sections 3 and 4.2) gives it a record per source address holding
  the count of admitted requests and the window start time, created on the first
  request of an address and reset when the window of one hour elapses; a request is
  admitted when the count of the current window is below the limit.  The limit
  (1) and the period (one hour, 3600 seconds) are those of the source line 132.
\<close>

type_synonym storage = "string \<rightharpoonup> nat \<times> nat"

definition limit_amount :: nat where
  "limit_amount = 1"

definition limit_period :: nat where
  "limit_period = 3600"

definition current_record :: "storage \<Rightarrow> string \<Rightarrow> nat \<Rightarrow> nat \<times> nat" where
  "current_record st key now =
     (case st key of
        None \<Rightarrow> (0, now)
      | Some (c, start) \<Rightarrow> if start + limit_period \<le> now then (0, now) else (c, start))"

definition hit :: "storage \<Rightarrow> string \<Rightarrow> nat \<Rightarrow> bool \<times> storage" where
  "hit st key now =
     (case current_record st key now of
        (c, start) \<Rightarrow>
          if c < limit_amount then (True, st(key \<mapsto> (Suc c, start))) else (False, st))"

definition get_remote_address :: "Request \<Rightarrow> string" where
  "get_remote_address request = client_host request"

text \<open>
  The decorated handler (lines 131--133): the function that \<^verbatim>\<open>limiter.limit\<close> returns
  takes the arguments of \<^verbatim>\<open>contact\<close>, the request and the \<^verbatim>\<open>ContactForm\<close> already built
  from the body, checks the limit of the request's address and then calls \<^verbatim>\<open>contact\<close>.
\<close>

definition limited_contact ::
  "ext \<Rightarrow> storage \<Rightarrow> nat \<Rightarrow> Request \<Rightarrow> ContactForm \<Rightarrow> (exn + json) \<times> SendSmtpEmail list \<times> storage" where
  "limited_contact x st now request contact_form =
     (case hit st (get_remote_address request) now of
        (False, st') \<Rightarrow> (Inl RateLimitExceeded, [], st')
      | (True, st') \<Rightarrow>
          (case contact x contact_form of (r, calls) \<Rightarrow> (r, calls, st')))"

subsection \<open>The route \<^verbatim>\<open>POST /contact\<close>\<close>

text \<open>
  Modelled from the spec: the responses that the web framework (FastAPI, not part of
  the module) builds from what the handler returns or raises.  The status codes are
  those of the spec's section 6: 200 with the returned body (\<^verbatim>\<open>status_code=200\<close>,
  line 131), the status and detail of an \<^verbatim>\<open>HTTPException\<close>, 422 for a validation
  failure naming the fields, 429 for \<^verbatim>\<open>RateLimitExceeded\<close> (the handler registered on
  line 27), and 500 for any other exception.
\<close>

definition error_json :: "string \<times> error_type \<Rightarrow> json" where
  "error_json e =
     JObj [(''loc'', JStr (fst e)),
           (''type'', JStr (case snd e of
                              missing \<Rightarrow> ''missing''
                            | string_too_short \<Rightarrow> ''string_too_short''
                            | string_too_long \<Rightarrow> ''string_too_long''
                            | value_error \<Rightarrow> ''value_error''))]"

fun respond :: "exn + json \<Rightarrow> response" where
  "respond (Inr j) = Response 200 j"
| "respond (Inl (HTTPException s d)) = Response s (JObj [(''detail'', JStr d)])"
| "respond (Inl RateLimitExceeded) =
     Response 429 (JObj [(''error'', JStr ''Rate limit exceeded: 1 per 1 hour'')])"
| "respond (Inl (RequestValidationError errs)) =
     Response 422 (JObj [(''detail'', JArr (map error_json errs))])"
| "respond (Inl (ApiException e)) = Response 500 (JStr ''Internal Server Error'')"
| "respond (Inl (PyException e)) = Response 500 (JStr ''Internal Server Error'')"

text \<open>
  The route: the framework builds the \<^verbatim>\<open>ContactForm\<close> argument from the body, which
  is the validation, and only then calls the decorated handler with it.
\<close>

definition post_contact ::
  "ext \<Rightarrow> storage \<Rightarrow> nat \<Rightarrow> Request \<Rightarrow> response \<times> SendSmtpEmail list \<times> storage" where
  "post_contact x st now request =
     (case validate (EmailStr x) (body request) of
        Inl errs \<Rightarrow> (respond (Inl (RequestValidationError errs)), [], st)
      | Inr contact_form \<Rightarrow>
          (case limited_contact x st now request contact_form of
             (r, calls, st') \<Rightarrow> (respond r, calls, st')))"

text \<open>
  Process start (lines 13--36): the module creates the limiter, with no record yet, and
  the application; none of these statements reads a configuration value.
\<close>

definition startup :: "environ \<Rightarrow> exn + storage" where
  "startup env = Inr Map.empty"

text \<open>A sequence of requests, each with the time at which it is handled.\<close>

fun serve ::
  "ext \<Rightarrow> storage \<Rightarrow> (nat \<times> Request) list \<Rightarrow> (response \<times> SendSmtpEmail list) list \<times> storage" where
  "serve x st [] = ([], st)"
| "serve x st ((now, request) # evs) =
     (case post_contact x st now request of
        (resp, calls, st') \<Rightarrow>
          (case serve x st' evs of (out, st'') \<Rightarrow> ((resp, calls) # out, st'')))"

text \<open>A request is admitted when it passed both the validation and the limiter.\<close>

definition admitted :: "response \<Rightarrow> bool" where
  "admitted r = (status_code r \<noteq> 422 \<and> status_code r \<noteq> 429)"

subsection \<open>Observations and sample inputs\<close>

text \<open>
  The fields that a validation result reports as offending, and the sample inputs on
  which the theorems below are evaluated: the submission of the
  specification's example, an address check that asks for an \<open>@\<close>, a provider
  that accepts every message and one that rejects every message.
\<close>

definition offending :: "validation_errors + ContactForm \<Rightarrow> string set" where
  "offending r = (case r of Inl errs \<Rightarrow> fst ` set errs | Inr f \<Rightarrow> {})"

definition example_ext :: ext where
  "example_ext =
     \<lparr>EmailStr = (\<lambda>s. if CHR ''@'' \<in> set s then Some s else None),
      getenv = [''BREVO_API_KEY'' \<mapsto> ''xkeysib-1'', ''RECIPIENT_EMAIL'' \<mapsto> ''owner@example.com''],
      send_transac_email = (\<lambda>k m. Sent ''<202611031200.1@smtp-relay>'')\<rparr>"

definition john_doe :: json_body where
  "john_doe = [''name'' \<mapsto> ''John Doe'', ''email'' \<mapsto> ''john@example.com'',
               ''subject'' \<mapsto> ''Inquiry'', ''message'' \<mapsto> ''Hello'']"

definition john_form :: ContactForm where
  "john_form = \<lparr>name = ''John Doe'', email = ''john@example.com'',
                 subject = ''Inquiry'', message = ''Hello''\<rparr>"

definition failing_ext :: ext where
  "failing_ext = example_ext\<lparr>send_transac_email := (\<lambda>k m. RaisesApiException ''(401) Reason: Unauthorized'')\<rparr>"

definition unconfigured_ext :: ext where
  "unconfigured_ext = example_ext\<lparr>getenv := Map.empty\<rparr>"

definition key_only_ext :: ext where
  "key_only_ext = example_ext\<lparr>getenv := [''BREVO_API_KEY'' \<mapsto> ''xkeysib-1'']\<rparr>"

definition john_request :: Request where
  "john_request = \<lparr>client_host = ''203.0.113.7'', body = john_doe\<rparr>"

definition empty_request :: Request where
  "empty_request = \<lparr>client_host = ''203.0.113.7'', body = Map.empty\<rparr>"

section \<open>Properties\<close>

lemma str_field_empty_iff:
  "(str_field lo hi k raw = []) = (\<exists>s. raw k = Some s \<and> lo \<le> length s \<and> length s \<le> hi)"
  by (auto simp: str_field_def split: option.splits)

lemma email_field_empty_iff:
  "(email_field E k raw = []) = (\<exists>s a. raw k = Some s \<and> E s = Some a)"
  by (auto simp: email_field_def split: option.splits)

lemma validate_Inr_iff:
  "(validate E raw = Inr f) =
     (field_errors E raw = [] \<and>
      f = \<lparr>name = text_of (raw ''name''), email = text_of (E (text_of (raw ''email''))),
           subject = text_of (raw ''subject''), message = text_of (raw ''message'')\<rparr>)"
  by (auto simp: validate_def)

lemma validate_Inl_iff:
  "(validate E raw = Inl errs) = (errs \<noteq> [] \<and> errs = field_errors E raw)"
  by (auto simp: validate_def)

lemma field_errors_empty_iff:
  "(field_errors E raw = []) =
     ((\<exists>s. raw ''name'' = Some s \<and> 1 \<le> length s \<and> length s \<le> 100) \<and>
      (\<exists>s a. raw ''email'' = Some s \<and> E s = Some a) \<and>
      (\<exists>s. raw ''subject'' = Some s \<and> 1 \<le> length s \<and> length s \<le> 200) \<and>
      (\<exists>s. raw ''message'' = Some s \<and> 1 \<le> length s \<and> length s \<le> 5000))"
  by (simp add: field_errors_def str_field_empty_iff email_field_empty_iff)

lemma offending_validate: "offending (validate E raw) = fst ` set (field_errors E raw)"
  by (auto simp: offending_def validate_def)

lemma in_field_errors:
  "(''name'' \<in> fst ` set (field_errors E raw)) = (str_field 1 100 ''name'' raw \<noteq> [])"
  "(''email'' \<in> fst ` set (field_errors E raw)) = (email_field E ''email'' raw \<noteq> [])"
  "(''subject'' \<in> fst ` set (field_errors E raw)) = (str_field 1 200 ''subject'' raw \<noteq> [])"
  "(''message'' \<in> fst ` set (field_errors E raw)) = (str_field 1 5000 ''message'' raw \<noteq> [])"
  by (auto simp: field_errors_def str_field_def email_field_def split: option.splits)

text \<open>
  Claim C2.  The validator accepts a raw submission exactly when the name is present,
  non-empty and at most 100 characters long, the email is present and accepted by the
  address grammar, the subject is present, non-empty and at most 200 characters long,
  and the message is present, non-empty and at most 5000 characters long; the accepted
  form then holds these values.  Otherwise the result is a validation error, never an
  empty one and never a form, and a field is reported in it exactly when that field
  violates its constraint.  A request whose body is not accepted is answered with
  status 422.
\<close>

theorem validate_accepts_iff:
  "(validate E raw = Inr f) =
     (raw ''name'' = Some (name f) \<and> 1 \<le> length (name f) \<and> length (name f) \<le> 100 \<and>
      (\<exists>s. raw ''email'' = Some s \<and> E s = Some (email f)) \<and>
      raw ''subject'' = Some (subject f) \<and> 1 \<le> length (subject f) \<and> length (subject f) \<le> 200 \<and>
      raw ''message'' = Some (message f) \<and> 1 \<le> length (message f) \<and> length (message f) \<le> 5000)
   \<and> ((\<exists>errs. validate E raw = Inl errs) = (\<not> (\<exists>g. validate E raw = Inr g)))
   \<and> validate E raw \<noteq> Inl []
   \<and> (''name'' \<in> offending (validate E raw)) =
       (\<not> (\<exists>s. raw ''name'' = Some s \<and> 1 \<le> length s \<and> length s \<le> 100))
   \<and> (''email'' \<in> offending (validate E raw)) =
       (\<not> (\<exists>s a. raw ''email'' = Some s \<and> E s = Some a))
   \<and> (''subject'' \<in> offending (validate E raw)) =
       (\<not> (\<exists>s. raw ''subject'' = Some s \<and> 1 \<le> length s \<and> length s \<le> 200))
   \<and> (''message'' \<in> offending (validate E raw)) =
       (\<not> (\<exists>s. raw ''message'' = Some s \<and> 1 \<le> length s \<and> length s \<le> 5000))
   \<and> ((\<exists>g. validate (EmailStr x) (body request) = Inr g) \<or>
        status_code (fst (post_contact x st now request)) = 422)"
proof -
  have a: "(validate E raw = Inr f) =
     (raw ''name'' = Some (name f) \<and> 1 \<le> length (name f) \<and> length (name f) \<le> 100 \<and>
      (\<exists>s. raw ''email'' = Some s \<and> E s = Some (email f)) \<and>
      raw ''subject'' = Some (subject f) \<and> 1 \<le> length (subject f) \<and> length (subject f) \<le> 200 \<and>
      raw ''message'' = Some (message f) \<and> 1 \<le> length (message f) \<and> length (message f) \<le> 5000)"
    unfolding validate_Inr_iff field_errors_empty_iff
    by (cases f) (auto simp: text_of_def)
  have b: "(\<exists>errs. validate E raw = Inl errs) = (\<not> (\<exists>g. validate E raw = Inr g))"
    by (cases "validate E raw") auto
  have c: "validate E raw \<noteq> Inl []"
    by (simp add: validate_Inl_iff)
  have d: "(\<exists>g. validate (EmailStr x) (body request) = Inr g) \<or>
        status_code (fst (post_contact x st now request)) = 422"
    by (cases "validate (EmailStr x) (body request)") (simp_all add: post_contact_def)
  show ?thesis
    unfolding offending_validate in_field_errors
    using a b c d by (simp add: str_field_empty_iff email_field_empty_iff)
qed



lemma validate_john_doe: "validate (EmailStr example_ext) john_doe = Inr john_form"
  by (simp add: validate_def field_errors_def str_field_def email_field_def text_of_def
      example_ext_def john_doe_def john_form_def)

lemma validate_empty: "validate E Map.empty =
  Inl [(''name'', missing), (''email'', missing), (''subject'', missing), (''message'', missing)]"
  by (simp add: validate_def field_errors_def str_field_def email_field_def)

lemma post_contact_invalid:
  "validate (EmailStr x) (body request) = Inl errs \<Longrightarrow>
   post_contact x st now request =
     (Response 422 (JObj [(''detail'', JArr (map error_json errs))]), [], st)"
  by (simp add: post_contact_def)

lemma post_contact_valid:
  "validate (EmailStr x) (body request) = Inr f \<Longrightarrow>
   post_contact x st now request =
     (case limited_contact x st now request f of (r, calls, st') \<Rightarrow> (respond r, calls, st'))"
  by (simp add: post_contact_def)

lemma hit_denied: "\<not> fst (hit st k now) \<Longrightarrow> hit st k now = (False, st)"
  by (auto simp: hit_def split: prod.splits if_splits)

lemma limited_contact_denied:
  "\<not> fst (hit st (get_remote_address request) now) \<Longrightarrow>
   limited_contact x st now request f = (Inl RateLimitExceeded, [], st)"
  by (simp add: limited_contact_def hit_denied)

lemma limited_contact_admitted:
  "fst (hit st (get_remote_address request) now) \<Longrightarrow>
   limited_contact x st now request f =
     (fst (contact x f), snd (contact x f), snd (hit st (get_remote_address request) now))"
  by (cases "hit st (get_remote_address request) now") (auto simp: limited_contact_def split: prod.splits)

lemma contact_sent:
  "get_brevo_client (getenv x) = Inr k \<Longrightarrow>
   send_transac_email x k (send_smtp_email (getenv x) f) = Sent r \<Longrightarrow>
   contact x f = (Inr (success_body f), [send_smtp_email (getenv x) f])"
  by (simp add: contact_def send_email_via_brevo_def)

lemma contact_api_exception:
  "get_brevo_client (getenv x) = Inr k \<Longrightarrow>
   send_transac_email x k (send_smtp_email (getenv x) f) = RaisesApiException e \<Longrightarrow>
   contact x f = (Inl (HTTPException 500 (''Failed to send email: '' @ e)), [send_smtp_email (getenv x) f])"
  by (simp add: contact_def send_email_via_brevo_def)

lemma contact_raises:
  "get_brevo_client (getenv x) = Inr k \<Longrightarrow>
   send_transac_email x k (send_smtp_email (getenv x) f) = Raises e \<Longrightarrow>
   contact x f = (Inl (HTTPException 500 (''An error occurred: '' @ e)), [send_smtp_email (getenv x) f])"
  by (simp add: contact_def send_email_via_brevo_def)

lemma contact_no_key:
  "getenv x ''BREVO_API_KEY'' = None \<or> getenv x ''BREVO_API_KEY'' = Some [] \<Longrightarrow>
   contact x f =
     (Inl (HTTPException 500 ''An error occurred: BREVO_API_KEY not found in environment variables''), [])"
  by (auto simp: contact_def send_email_via_brevo_def get_brevo_client_def)

lemma contact_cases:
  "(\<exists>m. contact x f = (Inr (success_body f), [m])) \<or> (\<exists>d calls. contact x f = (Inl (HTTPException 500 d), calls))"
  by (auto simp: contact_def send_email_via_brevo_def get_brevo_client_def Let_def
      split: option.splits provider_result.splits)

text \<open>
  Claim C5.  A submission in which some field violates its bound is answered with the
  validation error (status 422) naming the fields; no call to the email provider is
  made, and the limiter's records are left as they were.
\<close>

theorem invalid_submission_not_dispatched:
  "validate (EmailStr x) (body request) = Inl errs \<Longrightarrow>
   status_code (fst (post_contact x st now request)) = 422 \<and>
   content (fst (post_contact x st now request)) = JObj [(''detail'', JArr (map error_json errs))] \<and>
   fst (snd (post_contact x st now request)) = [] \<and>
   snd (snd (post_contact x st now request)) = st"
  by (simp add: post_contact_invalid)

theorem invalid_submission_not_dispatched_witness:
  "validate (EmailStr example_ext) (body \<lparr>client_host = ''10.0.0.1'', body = Map.empty\<rparr>) =
     Inl [(''name'', missing), (''email'', missing), (''subject'', missing), (''message'', missing)] \<and>
   status_code (fst (post_contact example_ext Map.empty 0 \<lparr>client_host = ''10.0.0.1'', body = Map.empty\<rparr>)) = 422 \<and>
   fst (snd (post_contact example_ext Map.empty 0 \<lparr>client_host = ''10.0.0.1'', body = Map.empty\<rparr>)) = []"
  using invalid_submission_not_dispatched [of example_ext "\<lparr>client_host = ''10.0.0.1'', body = Map.empty\<rparr>"
      "[(''name'', missing), (''email'', missing), (''subject'', missing), (''message'', missing)]" Map.empty 0]
  by (simp add: validate_empty)

text \<open>
  Claim C6.  When the call to the provider fails, by an \<^verbatim>\<open>ApiException\<close> or by any other
  exception, the response is a 500 whose detail is a readable prefix followed by the
  text of the exception; it is not the success response, and the provider was called
  exactly once, with the composed message: there is no retry.
\<close>

theorem dispatch_failure_is_500:
  assumes "validate (EmailStr x) (body request) = Inr f"
    and "fst (hit st (get_remote_address request) now)"
    and "get_brevo_client (getenv x) = Inr k"
    and "send_transac_email x k (send_smtp_email (getenv x) f) = RaisesApiException e \<or>
         send_transac_email x k (send_smtp_email (getenv x) f) = Raises e"
  shows "fst (post_contact x st now request) =
           Response 500 (JObj [(''detail'', JStr
             ((if send_transac_email x k (send_smtp_email (getenv x) f) = RaisesApiException e
               then ''Failed to send email: '' else ''An error occurred: '') @ e))]) \<and>
         fst (post_contact x st now request) \<noteq> Response 200 (success_body f) \<and>
         fst (snd (post_contact x st now request)) = [send_smtp_email (getenv x) f]"
  using assms(4)
proof
  assume "send_transac_email x k (send_smtp_email (getenv x) f) = RaisesApiException e"
  then show ?thesis
    using assms(1,2,3)
    by (simp add: post_contact_valid limited_contact_admitted contact_api_exception)
next
  assume "send_transac_email x k (send_smtp_email (getenv x) f) = Raises e"
  then show ?thesis
    using assms(1,2,3)
    by (simp add: post_contact_valid limited_contact_admitted contact_raises)
qed

text \<open>
  Claim C7.  A valid submission that the limiter admits and the provider accepts is
  answered with status 200 and the body \<open>{status: "success", message, data: {name,
  email, subject}}\<close>, where the three data fields are those of the submitted form (the
  name and subject of the body, and the address that the email check returned for the
  body's email); exactly one call to the provider is made.
\<close>

theorem success_echoes_form:
  assumes "validate (EmailStr x) (body request) = Inr f"
    and "fst (hit st (get_remote_address request) now)"
    and "get_brevo_client (getenv x) = Inr k"
    and "send_transac_email x k (send_smtp_email (getenv x) f) = Sent r"
  shows "fst (post_contact x st now request) =
           Response 200 (JObj [(''status'', JStr ''success''),
                               (''message'', JStr ''Your message has been sent successfully!''),
                               (''data'', JObj [(''name'', JStr (name f)),
                                               (''email'', JStr (email f)),
                                               (''subject'', JStr (subject f))])]) \<and>
         fst (snd (post_contact x st now request)) = [send_smtp_email (getenv x) f] \<and>
         body request ''name'' = Some (name f) \<and>
         (\<exists>s. body request ''email'' = Some s \<and> EmailStr x s = Some (email f)) \<and>
         body request ''subject'' = Some (subject f)"
proof -
  have "body request ''name'' = Some (name f) \<and>
         (\<exists>s. body request ''email'' = Some s \<and> EmailStr x s = Some (email f)) \<and>
         body request ''subject'' = Some (subject f)"
    using assms(1) unfolding validate_Inr_iff field_errors_empty_iff
    by (cases f) (auto simp: text_of_def)
  then show ?thesis
    using assms
    by (simp add: post_contact_valid limited_contact_admitted contact_sent success_body_def)
qed



lemma hit_empty: "hit Map.empty k now = (True, [k \<mapsto> (1, now)])"
  by (simp add: hit_def current_record_def limit_amount_def)

lemma key_example: "get_brevo_client (getenv example_ext) = Inr ''xkeysib-1''"
  by (simp add: get_brevo_client_def example_ext_def)

lemma validate_john_request: "validate (EmailStr example_ext) (body john_request) = Inr john_form"
  by (simp add: john_request_def validate_john_doe)

lemma failing_ext_simps:
  "EmailStr failing_ext = EmailStr example_ext"
  "getenv failing_ext = getenv example_ext"
  "send_transac_email failing_ext k m = RaisesApiException ''(401) Reason: Unauthorized''"
  by (simp_all add: failing_ext_def)

lemma unconfigured_ext_simps:
  "EmailStr unconfigured_ext = EmailStr example_ext"
  "getenv unconfigured_ext = Map.empty"
  by (simp_all add: unconfigured_ext_def)

theorem dispatch_failure_is_500_witness:
  "validate (EmailStr failing_ext) (body john_request) = Inr john_form \<and>
   fst (hit Map.empty (get_remote_address john_request) 0) \<and>
   get_brevo_client (getenv failing_ext) = Inr ''xkeysib-1'' \<and>
   send_transac_email failing_ext ''xkeysib-1'' (send_smtp_email (getenv failing_ext) john_form)
     = RaisesApiException ''(401) Reason: Unauthorized'' \<and>
   fst (post_contact failing_ext Map.empty 0 john_request) =
     Response 500 (JObj [(''detail'', JStr ''Failed to send email: (401) Reason: Unauthorized'')]) \<and>
   fst (snd (post_contact failing_ext Map.empty 0 john_request)) =
     [send_smtp_email (getenv failing_ext) john_form]"
proof -
  have h1: "validate (EmailStr failing_ext) (body john_request) = Inr john_form"
    by (simp add: failing_ext_simps validate_john_request)
  have h2: "fst (hit Map.empty (get_remote_address john_request) 0)"
    by (simp add: hit_empty)
  have h3: "get_brevo_client (getenv failing_ext) = Inr ''xkeysib-1''"
    by (simp add: failing_ext_simps key_example)
  have h4: "send_transac_email failing_ext ''xkeysib-1'' (send_smtp_email (getenv failing_ext) john_form)
     = RaisesApiException ''(401) Reason: Unauthorized''"
    by (simp add: failing_ext_simps)
  from dispatch_failure_is_500 [OF h1 h2 h3 disjI1 [OF h4]] h1 h2 h3 h4
  show ?thesis
    by simp
qed

theorem success_echoes_form_witness:
  "validate (EmailStr example_ext) (body john_request) = Inr john_form \<and>
   fst (hit Map.empty (get_remote_address john_request) 0) \<and>
   get_brevo_client (getenv example_ext) = Inr ''xkeysib-1'' \<and>
   send_transac_email example_ext ''xkeysib-1'' (send_smtp_email (getenv example_ext) john_form)
     = Sent ''<202611031200.1@smtp-relay>'' \<and>
   fst (post_contact example_ext Map.empty 0 john_request) =
     Response 200 (JObj [(''status'', JStr ''success''),
                         (''message'', JStr ''Your message has been sent successfully!''),
                         (''data'', JObj [(''name'', JStr ''John Doe''),
                                         (''email'', JStr ''john@example.com''),
                                         (''subject'', JStr ''Inquiry'')])]) \<and>
   length (fst (snd (post_contact example_ext Map.empty 0 john_request))) = 1"
proof -
  have h2: "fst (hit Map.empty (get_remote_address john_request) 0)"
    by (simp add: hit_empty)
  have h4: "send_transac_email example_ext ''xkeysib-1'' (send_smtp_email (getenv example_ext) john_form)
     = Sent ''<202611031200.1@smtp-relay>''"
    by (simp add: example_ext_def)
  from success_echoes_form [OF validate_john_request h2 key_example h4] validate_john_request h2 key_example h4
  show ?thesis
    by (simp add: john_form_def)
qed

lemma calls_of_send_email:
  "m \<in> set (snd (send_email_via_brevo x f)) \<Longrightarrow> m = send_smtp_email (getenv x) f"
  by (auto simp: send_email_via_brevo_def get_brevo_client_def Let_def
      split: option.splits provider_result.splits if_splits)

lemma key_only_ext_simps:
  "EmailStr key_only_ext = EmailStr example_ext"
  "getenv key_only_ext = [''BREVO_API_KEY'' \<mapsto> ''xkeysib-1'']"
  "send_transac_email key_only_ext k m = Sent ''<202611031200.1@smtp-relay>''"
  by (simp_all add: key_only_ext_def example_ext_def)

lemma get_brevo_client_present:
  "env ''BREVO_API_KEY'' = Some k \<Longrightarrow> k \<noteq> [] \<Longrightarrow> get_brevo_client env = Inr k"
  by (simp add: get_brevo_client_def)

lemma contact_with_key:
  assumes "get_brevo_client (getenv x) = Inr k"
  shows "contact x f =
     ((case send_transac_email x k (send_smtp_email (getenv x) f) of
         Sent r \<Rightarrow> Inr (success_body f)
       | RaisesApiException e \<Rightarrow> Inl (HTTPException 500 (''Failed to send email: '' @ e))
       | Raises e \<Rightarrow> Inl (HTTPException 500 (''An error occurred: '' @ e))),
      [send_smtp_email (getenv x) f])"
proof (cases "send_transac_email x k (send_smtp_email (getenv x) f)")
  case (Sent r)
  then show ?thesis by (simp add: contact_sent [OF assms])
next
  case (RaisesApiException e)
  then show ?thesis by (simp add: contact_api_exception [OF assms])
next
  case (Raises e)
  then show ?thesis by (simp add: contact_raises [OF assms])
qed

lemma send_smtp_email_addresses:
  "smtp_to (send_smtp_email env f) =
     [Address (case env ''RECIPIENT_EMAIL'' of None \<Rightarrow> ''dumilakshan4878@gmail.com'' | Some r \<Rightarrow> r) None]"
  "smtp_sender (send_smtp_email env f) =
     Address (case env ''SENDER_EMAIL'' of None \<Rightarrow> ''noreply@yourdomain.com'' | Some v \<Rightarrow> v)
             (Some (case env ''SENDER_NAME'' of None \<Rightarrow> ''Contact Form'' | Some v \<Rightarrow> v))"
  "smtp_reply_to (send_smtp_email env f) = Address (email f) (Some (name f))"
  "smtp_subject (send_smtp_email env f) = ''Contact Form: '' @ subject f"
  by (simp_all add: send_smtp_email_def getenv_default_def)

lemma sublist_in: "ys = ps @ xs @ ss \<Longrightarrow> sublist xs ys"
  by (auto simp: sublist_def)

text \<open>
  Claim C8.  Every message that the dispatcher hands to the provider is addressed to
  the configured recipient (the value of \<^verbatim>\<open>RECIPIENT_EMAIL\<close>, or the built-in default when
  the variable is not set), has the submitter's address and name as reply-to and the
  subject of the submission in its subject line, and carries two renderings of the
  submission.  The HTML content is the document of lines 77--89: a heading, then the
  name, the address and the subject each in a paragraph with its label in bold, a rule,
  and the message in a paragraph of its own.  The plain-text content is the text of
  lines 91--100: a title, then the name, the address and the subject each on a labelled
  line, and the message on the line after its label.
\<close>

theorem notification_composed:
  "m \<in> set (snd (send_email_via_brevo x f)) \<Longrightarrow>
     smtp_to m =
       [Address (case getenv x ''RECIPIENT_EMAIL'' of
                   None \<Rightarrow> ''dumilakshan4878@gmail.com'' | Some r \<Rightarrow> r) None] \<and>
     smtp_reply_to m = Address (email f) (Some (name f)) \<and>
     smtp_subject m = ''Contact Form: '' @ subject f \<and>
     smtp_html_content m =
       nl @ ''        <html>''
       @ nl @ ''            <body>''
       @ nl @ ''                <h2>New Contact Form Submission</h2>''
       @ nl @ ''                <p><strong>From:</strong> '' @ name f @ ''</p>''
       @ nl @ ''                <p><strong>Email:</strong> '' @ email f @ ''</p>''
       @ nl @ ''                <p><strong>Subject:</strong> '' @ subject f @ ''</p>''
       @ nl @ ''                <hr>''
       @ nl @ ''                <h3>Message:</h3>''
       @ nl @ ''                <p>'' @ message f @ ''</p>''
       @ nl @ ''            </body>''
       @ nl @ ''        </html>''
       @ nl @ ''        '' \<and>
     smtp_text_content m =
       nl @ ''        New Contact Form Submission''
       @ nl
       @ nl @ ''        From: '' @ name f
       @ nl @ ''        Email: '' @ email f
       @ nl @ ''        Subject: '' @ subject f
       @ nl
       @ nl @ ''        Message:''
       @ nl @ ''        '' @ message f
       @ nl @ ''        '' \<and>
     sublist (''<p><strong>From:</strong> '' @ name f @ ''</p>'') (smtp_html_content m) \<and>
     sublist (''<p><strong>Email:</strong> '' @ email f @ ''</p>'') (smtp_html_content m) \<and>
     sublist (''<p><strong>Subject:</strong> '' @ subject f @ ''</p>'') (smtp_html_content m) \<and>
     sublist (''<p>'' @ message f @ ''</p>'') (smtp_html_content m) \<and>
     sublist (''From: '' @ name f @ nl) (smtp_text_content m) \<and>
     sublist (''Email: '' @ email f @ nl) (smtp_text_content m) \<and>
     sublist (''Subject: '' @ subject f @ nl) (smtp_text_content m) \<and>
     sublist (''Message:'' @ nl @ ''        '' @ message f @ nl) (smtp_text_content m)"
proof -
  assume "m \<in> set (snd (send_email_via_brevo x f))"
  then have m: "m = send_smtp_email (getenv x) f"
    by (rule calls_of_send_email)
  have h: "smtp_html_content m = html_content f" and t: "smtp_text_content m = text_content f"
    unfolding m by (simp_all add: send_smtp_email_def)
  have h1: "sublist (''<p><strong>From:</strong> '' @ name f @ ''</p>'') (html_content f)"
    by (rule sublist_in [where ps = "nl @ ''        <html>'' @ nl @ ''            <body>'' @ nl
        @ ''                <h2>New Contact Form Submission</h2>'' @ nl @ ''                ''"
          and ss = "nl @ ''                '' @ ''<p><strong>Email:</strong> '' @ email f
              @ ''</p>'' @ nl @ ''                '' @ ''<p><strong>Subject:</strong> ''
              @ subject f @ ''</p>'' @ nl @ ''                <hr>'' @ nl
              @ ''                <h3>Message:</h3>'' @ nl @ ''                '' @ ''<p>''
              @ message f @ ''</p>'' @ nl @ ''            </body>'' @ nl @ ''        </html>''
              @ nl @ ''        ''"])
      (simp add: html_content_def)
  have h2: "sublist (''<p><strong>Email:</strong> '' @ email f @ ''</p>'') (html_content f)"
    by (rule sublist_in [where ps = "nl @ ''        <html>'' @ nl @ ''            <body>'' @ nl
        @ ''                <h2>New Contact Form Submission</h2>'' @ nl @ ''                ''
        @ ''<p><strong>From:</strong> '' @ name f @ ''</p>'' @ nl @ ''                ''"
          and ss = "nl @ ''                '' @ ''<p><strong>Subject:</strong> '' @ subject f
              @ ''</p>'' @ nl @ ''                <hr>'' @ nl
              @ ''                <h3>Message:</h3>'' @ nl @ ''                '' @ ''<p>''
              @ message f @ ''</p>'' @ nl @ ''            </body>'' @ nl @ ''        </html>''
              @ nl @ ''        ''"])
      (simp add: html_content_def)
  have h3: "sublist (''<p><strong>Subject:</strong> '' @ subject f @ ''</p>'') (html_content f)"
    by (rule sublist_in [where ps = "nl @ ''        <html>'' @ nl @ ''            <body>'' @ nl
        @ ''                <h2>New Contact Form Submission</h2>'' @ nl @ ''                ''
        @ ''<p><strong>From:</strong> '' @ name f @ ''</p>'' @ nl @ ''                ''
        @ ''<p><strong>Email:</strong> '' @ email f @ ''</p>'' @ nl @ ''                ''"
          and ss = "nl @ ''                <hr>'' @ nl @ ''                <h3>Message:</h3>''
              @ nl @ ''                '' @ ''<p>'' @ message f @ ''</p>'' @ nl
              @ ''            </body>'' @ nl @ ''        </html>'' @ nl @ ''        ''"])
      (simp add: html_content_def)
  have h4: "sublist (''<p>'' @ message f @ ''</p>'') (html_content f)"
    by (rule sublist_in [where ps = "nl @ ''        <html>'' @ nl @ ''            <body>'' @ nl
        @ ''                <h2>New Contact Form Submission</h2>'' @ nl @ ''                ''
        @ ''<p><strong>From:</strong> '' @ name f @ ''</p>'' @ nl @ ''                ''
        @ ''<p><strong>Email:</strong> '' @ email f @ ''</p>'' @ nl @ ''                ''
        @ ''<p><strong>Subject:</strong> '' @ subject f @ ''</p>'' @ nl
        @ ''                <hr>'' @ nl @ ''                <h3>Message:</h3>'' @ nl
        @ ''                ''"
          and ss = "nl @ ''            </body>'' @ nl @ ''        </html>'' @ nl @ ''        ''"])
      (simp add: html_content_def)
  have t1: "sublist (''From: '' @ name f @ nl) (text_content f)"
    by (rule sublist_in [where ps = "nl @ ''        New Contact Form Submission'' @ nl @ nl
        @ ''        ''"
          and ss = "''        '' @ ''Email: '' @ email f @ nl @ ''        '' @ ''Subject: ''
              @ subject f @ nl @ nl @ ''        '' @ ''Message:'' @ nl @ ''        ''
              @ message f @ nl @ ''        ''"])
      (simp add: text_content_def)
  have t2: "sublist (''Email: '' @ email f @ nl) (text_content f)"
    by (rule sublist_in [where ps = "nl @ ''        New Contact Form Submission'' @ nl @ nl
        @ ''        '' @ ''From: '' @ name f @ nl @ ''        ''"
          and ss = "''        '' @ ''Subject: '' @ subject f @ nl @ nl @ ''        ''
              @ ''Message:'' @ nl @ ''        '' @ message f @ nl @ ''        ''"])
      (simp add: text_content_def)
  have t3: "sublist (''Subject: '' @ subject f @ nl) (text_content f)"
    by (rule sublist_in [where ps = "nl @ ''        New Contact Form Submission'' @ nl @ nl
        @ ''        '' @ ''From: '' @ name f @ nl @ ''        '' @ ''Email: '' @ email f @ nl
        @ ''        ''"
          and ss = "nl @ ''        '' @ ''Message:'' @ nl @ ''        '' @ message f @ nl
              @ ''        ''"])
      (simp add: text_content_def)
  have t4: "sublist (''Message:'' @ nl @ ''        '' @ message f @ nl) (text_content f)"
    by (rule sublist_in [where ps = "nl @ ''        New Contact Form Submission'' @ nl @ nl
        @ ''        '' @ ''From: '' @ name f @ nl @ ''        '' @ ''Email: '' @ email f @ nl
        @ ''        '' @ ''Subject: '' @ subject f @ nl @ nl @ ''        ''"
          and ss = "''        ''"])
      (simp add: text_content_def)
  have a: "smtp_to m =
       [Address (case getenv x ''RECIPIENT_EMAIL'' of
                   None \<Rightarrow> ''dumilakshan4878@gmail.com'' | Some r \<Rightarrow> r) None]"
    "smtp_reply_to m = Address (email f) (Some (name f))"
    "smtp_subject m = ''Contact Form: '' @ subject f"
    unfolding m by (simp_all add: send_smtp_email_addresses)
  have hc: "smtp_html_content m =
       nl @ ''        <html>''
       @ nl @ ''            <body>''
       @ nl @ ''                <h2>New Contact Form Submission</h2>''
       @ nl @ ''                <p><strong>From:</strong> '' @ name f @ ''</p>''
       @ nl @ ''                <p><strong>Email:</strong> '' @ email f @ ''</p>''
       @ nl @ ''                <p><strong>Subject:</strong> '' @ subject f @ ''</p>''
       @ nl @ ''                <hr>''
       @ nl @ ''                <h3>Message:</h3>''
       @ nl @ ''                <p>'' @ message f @ ''</p>''
       @ nl @ ''            </body>''
       @ nl @ ''        </html>''
       @ nl @ ''        ''"
    unfolding h html_content_def by (rule refl)
  have tc: "smtp_text_content m =
       nl @ ''        New Contact Form Submission''
       @ nl
       @ nl @ ''        From: '' @ name f
       @ nl @ ''        Email: '' @ email f
       @ nl @ ''        Subject: '' @ subject f
       @ nl
       @ nl @ ''        Message:''
       @ nl @ ''        '' @ message f
       @ nl @ ''        ''"
    unfolding t text_content_def by (rule refl)
  have hs: "sublist (''<p><strong>From:</strong> '' @ name f @ ''</p>'') (smtp_html_content m)"
    "sublist (''<p><strong>Email:</strong> '' @ email f @ ''</p>'') (smtp_html_content m)"
    "sublist (''<p><strong>Subject:</strong> '' @ subject f @ ''</p>'') (smtp_html_content m)"
    "sublist (''<p>'' @ message f @ ''</p>'') (smtp_html_content m)"
    unfolding h by (rule h1 h2 h3 h4)+
  have ts: "sublist (''From: '' @ name f @ nl) (smtp_text_content m)"
    "sublist (''Email: '' @ email f @ nl) (smtp_text_content m)"
    "sublist (''Subject: '' @ subject f @ nl) (smtp_text_content m)"
    "sublist (''Message:'' @ nl @ ''        '' @ message f @ nl) (smtp_text_content m)"
    unfolding t by (rule t1 t2 t3 t4)+
  from a hc tc hs ts show ?thesis
    by blast
qed

lemma send_email_sent:
  "get_brevo_client (getenv x) = Inr k \<Longrightarrow>
   send_transac_email x k (send_smtp_email (getenv x) f) = Sent r \<Longrightarrow>
   send_email_via_brevo x f = (Inr r, [send_smtp_email (getenv x) f])"
  by (simp add: send_email_via_brevo_def)

lemma example_sends: "send_transac_email example_ext k m = Sent ''<202611031200.1@smtp-relay>''"
  by (simp add: example_ext_def)

lemma calls_example:
  "snd (send_email_via_brevo example_ext john_form) = [send_smtp_email (getenv example_ext) john_form]"
  by (simp add: send_email_sent [OF key_example example_sends])

theorem notification_composed_witness:
  "send_smtp_email (getenv example_ext) john_form \<in> set (snd (send_email_via_brevo example_ext john_form)) \<and>
   snd (send_email_via_brevo example_ext john_form) = [send_smtp_email (getenv example_ext) john_form] \<and>
   smtp_to (send_smtp_email (getenv example_ext) john_form) = [Address ''owner@example.com'' None] \<and>
   smtp_reply_to (send_smtp_email (getenv example_ext) john_form) =
     Address ''john@example.com'' (Some ''John Doe'') \<and>
   smtp_subject (send_smtp_email (getenv example_ext) john_form) = ''Contact Form: Inquiry'' \<and>
   smtp_html_content (send_smtp_email (getenv example_ext) john_form) =
     nl @ ''        <html>''
     @ nl @ ''            <body>''
     @ nl @ ''                <h2>New Contact Form Submission</h2>''
     @ nl @ ''                <p><strong>From:</strong> John Doe</p>''
     @ nl @ ''                <p><strong>Email:</strong> john@example.com</p>''
     @ nl @ ''                <p><strong>Subject:</strong> Inquiry</p>''
     @ nl @ ''                <hr>''
     @ nl @ ''                <h3>Message:</h3>''
     @ nl @ ''                <p>Hello</p>''
     @ nl @ ''            </body>''
     @ nl @ ''        </html>''
     @ nl @ ''        '' \<and>
   smtp_text_content (send_smtp_email (getenv example_ext) john_form) =
     nl @ ''        New Contact Form Submission''
     @ nl
     @ nl @ ''        From: John Doe''
     @ nl @ ''        Email: john@example.com''
     @ nl @ ''        Subject: Inquiry''
     @ nl
     @ nl @ ''        Message:''
     @ nl @ ''        Hello''
     @ nl @ ''        ''"
proof -
  have h: "send_smtp_email (getenv example_ext) john_form \<in> set (snd (send_email_via_brevo example_ext john_form))"
    by (simp add: calls_example)
  have e: "getenv example_ext ''RECIPIENT_EMAIL'' = Some ''owner@example.com''"
    by (simp add: example_ext_def)
  have j: "name john_form = ''John Doe''" "email john_form = ''john@example.com''"
    "subject john_form = ''Inquiry''" "message john_form = ''Hello''"
    by (simp_all add: john_form_def)
  note t = notification_composed [OF h, unfolded e j]
  have t1: "smtp_to (send_smtp_email (getenv example_ext) john_form) = [Address ''owner@example.com'' None]"
    using t by simp
  have t2: "smtp_reply_to (send_smtp_email (getenv example_ext) john_form) =
     Address ''john@example.com'' (Some ''John Doe'')"
    using t by simp
  have t3: "smtp_subject (send_smtp_email (getenv example_ext) john_form) = ''Contact Form: Inquiry''"
    using conjunct1 [OF conjunct2 [OF conjunct2 [OF t]]] by simp
  have t4: "smtp_html_content (send_smtp_email (getenv example_ext) john_form) =
     nl @ ''        <html>''
     @ nl @ ''            <body>''
     @ nl @ ''                <h2>New Contact Form Submission</h2>''
     @ nl @ ''                <p><strong>From:</strong> John Doe</p>''
     @ nl @ ''                <p><strong>Email:</strong> john@example.com</p>''
     @ nl @ ''                <p><strong>Subject:</strong> Inquiry</p>''
     @ nl @ ''                <hr>''
     @ nl @ ''                <h3>Message:</h3>''
     @ nl @ ''                <p>Hello</p>''
     @ nl @ ''            </body>''
     @ nl @ ''        </html>''
     @ nl @ ''        ''"
    using conjunct1 [OF conjunct2 [OF conjunct2 [OF conjunct2 [OF t]]]] by simp
  have t5: "smtp_text_content (send_smtp_email (getenv example_ext) john_form) =
     nl @ ''        New Contact Form Submission''
     @ nl
     @ nl @ ''        From: John Doe''
     @ nl @ ''        Email: john@example.com''
     @ nl @ ''        Subject: Inquiry''
     @ nl
     @ nl @ ''        Message:''
     @ nl @ ''        Hello''
     @ nl @ ''        ''"
    using conjunct1 [OF conjunct2 [OF conjunct2 [OF conjunct2 [OF conjunct2 [OF t]]]]] by simp
  from h calls_example t1 t2 t3 t4 t5 show ?thesis
    by blast
qed

text \<open>
  Claim C4, as stated, fails: with no configuration value in the environment the
  process starts, and the missing API key shows as a 500 on the request that needs it.
\<close>

theorem missing_key_fails_request:
  "startup (getenv unconfigured_ext) = Inr Map.empty \<and>
   post_contact unconfigured_ext Map.empty 0 john_request =
     (Response 500 (JObj [(''detail'',
        JStr ''An error occurred: BREVO_API_KEY not found in environment variables'')]),
      [], [''203.0.113.7'' \<mapsto> (1, 0)])"
proof -
  have v: "validate (EmailStr unconfigured_ext) (body john_request) = Inr john_form"
    by (simp add: unconfigured_ext_simps validate_john_request)
  have h: "fst (hit Map.empty (get_remote_address john_request) 0)"
    by (simp add: hit_empty)
  have c: "contact unconfigured_ext john_form =
     (Inl (HTTPException 500 ''An error occurred: BREVO_API_KEY not found in environment variables''), [])"
    by (rule contact_no_key) (simp add: unconfigured_ext_simps)
  have a: "get_remote_address john_request = ''203.0.113.7''"
    by (simp add: get_remote_address_def john_request_def)
  show ?thesis
    unfolding post_contact_valid [OF v] limited_contact_admitted [OF h] c
    by (simp add: startup_def hit_empty a)
qed

text \<open>
  Claim C4, amended.  Process start reads no configuration value and cannot fail on
  one.  The values are read while a request is handled.  For a valid request that the
  limiter admits, an absent or empty \<^verbatim>\<open>BREVO_API_KEY\<close> gives a 500 with the text of the
  configuration error and no call to the provider.  With the key present, the sender
  address, the sender name and the recipient address are never an error, set or not:
  the provider is called once with the composed message, in which each value that is
  not set is replaced by its built-in default, and the response is the one that the
  provider's answer decides, 200 when it accepts the message.
\<close>

theorem configuration_read_per_request:
  assumes "validate (EmailStr x) (body request) = Inr f"
    and "fst (hit st (get_remote_address request) now)"
  shows "startup (getenv x) = Inr Map.empty \<and>
     (getenv x ''BREVO_API_KEY'' = None \<or> getenv x ''BREVO_API_KEY'' = Some [] \<longrightarrow>
        fst (post_contact x st now request) =
          Response 500 (JObj [(''detail'',
            JStr ''An error occurred: BREVO_API_KEY not found in environment variables'')]) \<and>
        fst (snd (post_contact x st now request)) = []) \<and>
     (getenv x ''BREVO_API_KEY'' = Some k \<and> k \<noteq> [] \<longrightarrow>
        fst (snd (post_contact x st now request)) = [send_smtp_email (getenv x) f] \<and>
        smtp_to (send_smtp_email (getenv x) f) =
          [Address (case getenv x ''RECIPIENT_EMAIL'' of
                      None \<Rightarrow> ''dumilakshan4878@gmail.com'' | Some r \<Rightarrow> r) None] \<and>
        smtp_sender (send_smtp_email (getenv x) f) =
          Address (case getenv x ''SENDER_EMAIL'' of None \<Rightarrow> ''noreply@yourdomain.com'' | Some v \<Rightarrow> v)
                  (Some (case getenv x ''SENDER_NAME'' of None \<Rightarrow> ''Contact Form'' | Some v \<Rightarrow> v)) \<and>
        fst (post_contact x st now request) =
          (case send_transac_email x k (send_smtp_email (getenv x) f) of
             Sent r \<Rightarrow> Response 200 (success_body f)
           | RaisesApiException e \<Rightarrow>
               Response 500 (JObj [(''detail'', JStr (''Failed to send email: '' @ e))])
           | Raises e \<Rightarrow>
               Response 500 (JObj [(''detail'', JStr (''An error occurred: '' @ e))])))"
proof -
  have a: "startup (getenv x) = Inr Map.empty"
    by (simp add: startup_def)
  have b: "getenv x ''BREVO_API_KEY'' = None \<or> getenv x ''BREVO_API_KEY'' = Some [] \<longrightarrow>
        fst (post_contact x st now request) =
          Response 500 (JObj [(''detail'',
            JStr ''An error occurred: BREVO_API_KEY not found in environment variables'')]) \<and>
        fst (snd (post_contact x st now request)) = []"
    using assms by (auto simp: post_contact_valid limited_contact_admitted contact_no_key)
  have c: "getenv x ''BREVO_API_KEY'' = Some k \<and> k \<noteq> [] \<longrightarrow>
        fst (snd (post_contact x st now request)) = [send_smtp_email (getenv x) f] \<and>
        fst (post_contact x st now request) =
          (case send_transac_email x k (send_smtp_email (getenv x) f) of
             Sent r \<Rightarrow> Response 200 (success_body f)
           | RaisesApiException e \<Rightarrow>
               Response 500 (JObj [(''detail'', JStr (''Failed to send email: '' @ e))])
           | Raises e \<Rightarrow>
               Response 500 (JObj [(''detail'', JStr (''An error occurred: '' @ e))]))"
  proof
    assume "getenv x ''BREVO_API_KEY'' = Some k \<and> k \<noteq> []"
    then have k: "get_brevo_client (getenv x) = Inr k"
      by (simp add: get_brevo_client_present)
    show "fst (snd (post_contact x st now request)) = [send_smtp_email (getenv x) f] \<and>
        fst (post_contact x st now request) =
          (case send_transac_email x k (send_smtp_email (getenv x) f) of
             Sent r \<Rightarrow> Response 200 (success_body f)
           | RaisesApiException e \<Rightarrow>
               Response 500 (JObj [(''detail'', JStr (''Failed to send email: '' @ e))])
           | Raises e \<Rightarrow>
               Response 500 (JObj [(''detail'', JStr (''An error occurred: '' @ e))]))"
      unfolding post_contact_valid [OF assms(1)] limited_contact_admitted [OF assms(2)]
        contact_with_key [OF k]
      by (simp split: provider_result.splits)
  qed
  from a b c show ?thesis
    by (simp add: send_smtp_email_addresses)
qed

theorem configuration_read_per_request_witness:
  "validate (EmailStr unconfigured_ext) (body john_request) = Inr john_form \<and>
   fst (hit Map.empty (get_remote_address john_request) 0) \<and>
   getenv unconfigured_ext ''BREVO_API_KEY'' = None \<and>
   startup (getenv unconfigured_ext) = Inr Map.empty \<and>
   fst (post_contact unconfigured_ext Map.empty 0 john_request) =
     Response 500 (JObj [(''detail'',
       JStr ''An error occurred: BREVO_API_KEY not found in environment variables'')]) \<and>
   fst (snd (post_contact unconfigured_ext Map.empty 0 john_request)) = [] \<and>
   validate (EmailStr key_only_ext) (body john_request) = Inr john_form \<and>
   getenv key_only_ext ''BREVO_API_KEY'' = Some ''xkeysib-1'' \<and>
   getenv key_only_ext ''SENDER_EMAIL'' = None \<and>
   getenv key_only_ext ''SENDER_NAME'' = None \<and>
   getenv key_only_ext ''RECIPIENT_EMAIL'' = None \<and>
   startup (getenv key_only_ext) = Inr Map.empty \<and>
   fst (post_contact key_only_ext Map.empty 0 john_request) = Response 200 (success_body john_form) \<and>
   fst (snd (post_contact key_only_ext Map.empty 0 john_request)) =
     [send_smtp_email (getenv key_only_ext) john_form] \<and>
   smtp_to (send_smtp_email (getenv key_only_ext) john_form) =
     [Address ''dumilakshan4878@gmail.com'' None] \<and>
   smtp_sender (send_smtp_email (getenv key_only_ext) john_form) =
     Address ''noreply@yourdomain.com'' (Some ''Contact Form'')"
proof -
  have v1: "validate (EmailStr unconfigured_ext) (body john_request) = Inr john_form"
    by (simp add: unconfigured_ext_simps validate_john_request)
  have v2: "validate (EmailStr key_only_ext) (body john_request) = Inr john_form"
    by (simp add: key_only_ext_simps validate_john_request)
  have h: "fst (hit Map.empty (get_remote_address john_request) 0)"
    by (simp add: hit_empty)
  have e1: "getenv unconfigured_ext ''BREVO_API_KEY'' = None"
    by (simp add: unconfigured_ext_simps)
  have e2: "getenv key_only_ext ''BREVO_API_KEY'' = Some ''xkeysib-1'' \<and> ''xkeysib-1'' \<noteq> []"
    by (simp add: key_only_ext_simps)
  have e3: "getenv key_only_ext ''SENDER_EMAIL'' = None" "getenv key_only_ext ''SENDER_NAME'' = None"
    "getenv key_only_ext ''RECIPIENT_EMAIL'' = None"
    by (simp_all add: key_only_ext_simps)
  have s: "send_transac_email key_only_ext ''xkeysib-1'' (send_smtp_email (getenv key_only_ext) john_form) =
      Sent ''<202611031200.1@smtp-relay>''"
    by (simp add: key_only_ext_simps)
  note t1 = configuration_read_per_request [OF v1 h, of "''xkeysib-1''"]
  note t2 = configuration_read_per_request [OF v2 h, of "''xkeysib-1''"]
  have p1: "startup (getenv unconfigured_ext) = Inr Map.empty \<and>
      fst (post_contact unconfigured_ext Map.empty 0 john_request) =
        Response 500 (JObj [(''detail'',
          JStr ''An error occurred: BREVO_API_KEY not found in environment variables'')]) \<and>
      fst (snd (post_contact unconfigured_ext Map.empty 0 john_request)) = []"
    using t1 e1 by blast
  have p2: "startup (getenv key_only_ext) = Inr Map.empty \<and>
      fst (snd (post_contact key_only_ext Map.empty 0 john_request)) =
        [send_smtp_email (getenv key_only_ext) john_form] \<and>
      smtp_to (send_smtp_email (getenv key_only_ext) john_form) =
        [Address (case getenv key_only_ext ''RECIPIENT_EMAIL'' of
                    None \<Rightarrow> ''dumilakshan4878@gmail.com'' | Some r \<Rightarrow> r) None] \<and>
      smtp_sender (send_smtp_email (getenv key_only_ext) john_form) =
        Address (case getenv key_only_ext ''SENDER_EMAIL'' of None \<Rightarrow> ''noreply@yourdomain.com'' | Some v \<Rightarrow> v)
                (Some (case getenv key_only_ext ''SENDER_NAME'' of None \<Rightarrow> ''Contact Form'' | Some v \<Rightarrow> v)) \<and>
      fst (post_contact key_only_ext Map.empty 0 john_request) =
        (case send_transac_email key_only_ext ''xkeysib-1'' (send_smtp_email (getenv key_only_ext) john_form) of
           Sent r \<Rightarrow> Response 200 (success_body john_form)
         | RaisesApiException e \<Rightarrow>
             Response 500 (JObj [(''detail'', JStr (''Failed to send email: '' @ e))])
         | Raises e \<Rightarrow>
             Response 500 (JObj [(''detail'', JStr (''An error occurred: '' @ e))]))"
    using t2 e2 by blast
  have p3: "fst (post_contact key_only_ext Map.empty 0 john_request) = Response 200 (success_body john_form)"
    using p2 unfolding s by simp
  have p4: "smtp_to (send_smtp_email (getenv key_only_ext) john_form) =
     [Address ''dumilakshan4878@gmail.com'' None]"
    using p2 unfolding e3 by simp
  have p5: "smtp_sender (send_smtp_email (getenv key_only_ext) john_form) =
     Address ''noreply@yourdomain.com'' (Some ''Contact Form'')"
    using p2 unfolding e3 by simp
  from v1 v2 h e1 e2 e3 p1 p2 p3 p4 p5 show ?thesis
    by blast
qed

lemma hit_in_window:
  "st k = Some (c, s) \<Longrightarrow> 1 \<le> c \<Longrightarrow> now < s + 3600 \<Longrightarrow> hit st k now = (False, st)"
  by (simp add: hit_def current_record_def limit_amount_def limit_period_def)

lemma hit_elapsed:
  "st k = Some (c, s) \<Longrightarrow> s + 3600 \<le> now \<Longrightarrow> hit st k now = (True, st(k \<mapsto> (1, now)))"
  by (simp add: hit_def current_record_def limit_amount_def limit_period_def)

lemma hit_first:
  "st k = None \<Longrightarrow> hit st k now = (True, st(k \<mapsto> (1, now)))"
  by (simp add: hit_def current_record_def limit_amount_def)

lemma hit_other: "k' \<noteq> k \<Longrightarrow> snd (hit st k now) k' = st k'"
  by (auto simp: hit_def split: prod.splits)

lemma hit_admitted_record:
  assumes "\<And>c s. st k = Some (c, s) \<Longrightarrow> 1 \<le> c" and "fst (hit st k now)"
  shows "snd (hit st k now) k = Some (1, now)"
proof (cases "st k")
  case None
  then show ?thesis by (simp add: hit_first)
next
  case (Some r)
  obtain c s where r: "r = (c, s)" by (cases r)
  have c: "1 \<le> c" using assms(1) Some r by simp
  show ?thesis
  proof (cases "s + 3600 \<le> now")
    case True
    then show ?thesis using Some r by (simp add: hit_elapsed)
  next
    case False
    then have "hit st k now = (False, st)" using Some r c by (simp add: hit_in_window)
    then show ?thesis using assms(2) by simp
  qed
qed

lemma hit_counts:
  assumes "\<And>k c s. st k = Some (c, s) \<Longrightarrow> 1 \<le> c" and "snd (hit st a now) k = Some (c, s)"
  shows "1 \<le> c"
proof (cases "k = a")
  case False
  then show ?thesis using assms by (simp add: hit_other)
next
  case True
  show ?thesis
  proof (cases "fst (hit st a now)")
    case True
    have "snd (hit st a now) a = Some (1, now)"
      by (rule hit_admitted_record [OF assms(1) True])
    then show ?thesis using assms(2) \<open>k = a\<close> by simp
  next
    case False
    then show ?thesis using assms by (simp add: hit_denied)
  qed
qed

lemma respond_contact_status:
  "status_code (respond (fst (contact x f))) = 200 \<or> status_code (respond (fst (contact x f))) = 500"
  using contact_cases [of x f] by auto

lemma post_contact_storage:
  "snd (snd (post_contact x st now request)) = st \<or>
   snd (snd (post_contact x st now request)) = snd (hit st (get_remote_address request) now)"
proof (cases "validate (EmailStr x) (body request)")
  case (Inl errs)
  then show ?thesis by (simp add: post_contact_invalid)
next
  case (Inr f)
  show ?thesis
  proof (cases "fst (hit st (get_remote_address request) now)")
    case True
    then show ?thesis by (simp add: post_contact_valid [OF Inr] limited_contact_admitted)
  next
    case False
    then show ?thesis by (simp add: post_contact_valid [OF Inr] limited_contact_denied)
  qed
qed

lemma post_contact_counts:
  assumes "\<And>k c s. st k = Some (c, s) \<Longrightarrow> 1 \<le> c"
    and "snd (snd (post_contact x st now request)) k = Some (c, s)"
  shows "1 \<le> c"
  using post_contact_storage [of x st now request]
proof
  assume "snd (snd (post_contact x st now request)) = st"
  then show ?thesis using assms by simp
next
  assume "snd (snd (post_contact x st now request)) = snd (hit st (get_remote_address request) now)"
  then show ?thesis using assms hit_counts [of st "get_remote_address request" now k c s] by simp
qed

lemma serve_counts:
  "(\<And>k c s. st k = Some (c, s) \<Longrightarrow> 1 \<le> c) \<Longrightarrow> snd (serve x st evs) k = Some (c, s) \<Longrightarrow> 1 \<le> c"
proof (induction evs arbitrary: st)
  case Nil
  then show ?case by simp
next
  case (Cons ev evs)
  obtain now request where ev: "ev = (now, request)" by (cases ev)
  have step: "\<And>k c s. snd (snd (post_contact x st now request)) k = Some (c, s) \<Longrightarrow> 1 \<le> c"
    using post_contact_counts [of st x now request] Cons.prems(1) by blast
  have "snd (serve x st (ev # evs)) = snd (serve x (snd (snd (post_contact x st now request))) evs)"
    by (simp add: ev split: prod.splits)
  then show ?case using Cons.IH [OF step] Cons.prems(2) by simp
qed

lemma post_contact_admitted_record:
  assumes "\<And>c s. st (get_remote_address request) = Some (c, s) \<Longrightarrow> 1 \<le> c"
    and "admitted (fst (post_contact x st now request))"
  shows "snd (snd (post_contact x st now request)) (get_remote_address request) = Some (1, now)"
proof (cases "validate (EmailStr x) (body request)")
  case (Inl errs)
  then show ?thesis using assms(2) by (simp add: post_contact_invalid admitted_def)
next
  case (Inr f)
  show ?thesis
  proof (cases "fst (hit st (get_remote_address request) now)")
    case True
    then show ?thesis
      using hit_admitted_record [OF assms(1) True]
      by (simp add: post_contact_valid [OF Inr] limited_contact_admitted)
  next
    case False
    then show ?thesis using assms(2)
      by (simp add: post_contact_valid [OF Inr] limited_contact_denied admitted_def)
  qed
qed

lemma post_contact_in_window:
  assumes "st (get_remote_address request) = Some (c, s)" and "1 \<le> c" and "now < s + 3600"
  shows "post_contact x st now request =
     (case validate (EmailStr x) (body request) of
        Inl errs \<Rightarrow> (Response 422 (JObj [(''detail'', JArr (map error_json errs))]), [], st)
      | Inr f \<Rightarrow> (Response 429 (JObj [(''error'', JStr ''Rate limit exceeded: 1 per 1 hour'')]), [], st))"
proof (cases "validate (EmailStr x) (body request)")
  case (Inl errs)
  then show ?thesis by (simp add: post_contact_invalid)
next
  case (Inr f)
  have "\<not> fst (hit st (get_remote_address request) now)"
    using hit_in_window [where st = st and k = "get_remote_address request" and c = c and s = s and now = now]
      assms by simp
  then show ?thesis by (simp add: post_contact_valid [OF Inr] limited_contact_denied Inr)
qed

lemma post_contact_keeps_record:
  assumes "st a = Some (c, s)" and "1 \<le> c" and "now < s + 3600"
  shows "snd (snd (post_contact x st now request)) a = Some (c, s)"
proof (cases "get_remote_address request = a")
  case True
  then show ?thesis
    using post_contact_in_window [of st request c s now x] assms
    by (simp split: sum.splits)
next
  case False
  then show ?thesis
    using post_contact_storage [of x st now request] assms(1)
    by (auto simp: hit_other)
qed

lemma serve_keeps_record:
  "st a = Some (c, s) \<Longrightarrow> 1 \<le> c \<Longrightarrow> \<forall>t \<in> set (map fst evs). t < s + 3600 \<Longrightarrow>
   snd (serve x st evs) a = Some (c, s)"
proof (induction evs arbitrary: st)
  case Nil
  then show ?case by simp
next
  case (Cons ev evs)
  obtain now request where ev: "ev = (now, request)" by (cases ev)
  have now: "now < s + 3600" using Cons.prems(3) ev by simp
  have step: "snd (snd (post_contact x st now request)) a = Some (c, s)"
    using post_contact_keeps_record [where st = st and a = a and c = c and s = s and now = now]
      Cons.prems(1,2) now by simp
  have "snd (serve x st (ev # evs)) = snd (serve x (snd (snd (post_contact x st now request))) evs)"
    by (simp add: ev split: prod.splits)
  then show ?case
    using Cons.IH [where st = "snd (snd (post_contact x st now request))"] step Cons.prems(2,3)
    by simp
qed

lemma serve_append:
  "serve x st (xs @ ys) =
     (fst (serve x st xs) @ fst (serve x (snd (serve x st xs)) ys),
      snd (serve x (snd (serve x st xs)) ys))"
  by (induction xs arbitrary: st) (auto split: prod.splits)

lemma serve_Cons:
  "serve x st ((now, request) # evs) =
     ((fst (post_contact x st now request), fst (snd (post_contact x st now request)))
        # fst (serve x (snd (snd (post_contact x st now request))) evs),
      snd (serve x (snd (snd (post_contact x st now request))) evs))"
  by (simp split: prod.splits)

lemma length_serve: "length (fst (serve x st evs)) = length evs"
proof (induction evs arbitrary: st)
  case Nil
  then show ?case by simp
next
  case (Cons ev evs)
  obtain now request where ev: "ev = (now, request)" by (cases ev)
  show ?case unfolding ev serve_Cons using Cons.IH by simp
qed

lemma serve_two:
  assumes "\<And>k c s. st k = Some (c, s) \<Longrightarrow> 1 \<le> c"
    and "sorted (map fst ((t1, r1) # mid @ [(t2, r2)]))"
    and "get_remote_address r2 = get_remote_address r1"
    and "admitted (fst (post_contact x st t1 r1))"
    and "t2 < t1 + 3600"
  shows "last (fst (serve x st ((t1, r1) # mid @ [(t2, r2)]))) =
     (case validate (EmailStr x) (body r2) of
        Inl errs \<Rightarrow> (Response 422 (JObj [(''detail'', JArr (map error_json errs))]), [])
      | Inr f \<Rightarrow> (Response 429 (JObj [(''error'', JStr ''Rate limit exceeded: 1 per 1 hour'')]), []))"
proof -
  let ?a = "get_remote_address r1"
  let ?s1 = "snd (snd (post_contact x st t1 r1))"
  let ?s2 = "snd (serve x ?s1 mid)"
  have rec1: "?s1 ?a = Some (1, t1)"
    using post_contact_admitted_record [of st r1 x t1] assms(1,4) by blast
  have mid: "\<forall>t \<in> set (map fst mid). t < t1 + 3600"
    using assms(2,5) by (auto simp: sorted_append)
  have rec2: "?s2 ?a = Some (1, t1)"
    using serve_keeps_record [where st = ?s1 and a = ?a and c = 1 and s = t1 and evs = mid and x = x]
      rec1 mid by simp
  have r2: "?s2 (get_remote_address r2) = Some (1, t1)"
    using rec2 assms(3) by simp
  have "last (fst (serve x st ((t1, r1) # mid @ [(t2, r2)]))) =
      (fst (post_contact x ?s2 t2 r2), fst (snd (post_contact x ?s2 t2 r2)))"
    by (simp add: serve_Cons serve_append del: serve.simps(2))
  then show ?thesis
    using post_contact_in_window [where st = ?s2 and request = r2 and c = 1 and s = t1 and now = t2 and x = x]
      r2 assms(5)
    by (simp split: sum.splits)
qed

lemma address_john: "get_remote_address john_request = ''203.0.113.7''"
  by (simp add: get_remote_address_def john_request_def)

lemma address_empty: "get_remote_address empty_request = ''203.0.113.7''"
  by (simp add: get_remote_address_def empty_request_def)

lemma validate_empty_request:
  "validate E (body empty_request) =
     Inl [(''name'', missing), (''email'', missing), (''subject'', missing), (''message'', missing)]"
  by (simp add: empty_request_def validate_empty)

lemma post_contact_john_first:
  "post_contact example_ext Map.empty t john_request =
     (Response 200 (success_body john_form), [send_smtp_email (getenv example_ext) john_form],
      [''203.0.113.7'' \<mapsto> (1, t)])"
proof -
  have h: "fst (hit Map.empty (get_remote_address john_request) t)"
    by (simp add: hit_empty)
  show ?thesis
    unfolding post_contact_valid [OF validate_john_request] limited_contact_admitted [OF h]
      contact_sent [OF key_example example_sends]
    by (simp add: hit_empty address_john)
qed

lemma post_contact_john_failing:
  "post_contact failing_ext Map.empty t john_request =
     (Response 500 (JObj [(''detail'', JStr ''Failed to send email: (401) Reason: Unauthorized'')]),
      [send_smtp_email (getenv failing_ext) john_form], [''203.0.113.7'' \<mapsto> (1, t)])"
proof -
  have v: "validate (EmailStr failing_ext) (body john_request) = Inr john_form"
    by (simp add: failing_ext_simps validate_john_request)
  have h: "fst (hit Map.empty (get_remote_address john_request) t)"
    by (simp add: hit_empty)
  have k: "get_brevo_client (getenv failing_ext) = Inr ''xkeysib-1''"
    by (simp add: failing_ext_simps key_example)
  have c: "contact failing_ext john_form =
     (Inl (HTTPException 500 (''Failed to send email: '' @ ''(401) Reason: Unauthorized'')),
      [send_smtp_email (getenv failing_ext) john_form])"
    by (rule contact_api_exception [OF k]) (simp add: failing_ext_simps)
  show ?thesis
    unfolding post_contact_valid [OF v] limited_contact_admitted [OF h] c
    by (simp add: hit_empty address_john)
qed

lemma post_contact_empty_request:
  "post_contact x st t empty_request =
     (Response 422 (JObj [(''detail'', JArr (map error_json
        [(''name'', missing), (''email'', missing), (''subject'', missing), (''message'', missing)]))]),
      [], st)"
  by (rule post_contact_invalid) (rule validate_empty_request)

lemma serve_nth_prefix:
  "fst (serve x st (pre @ (t1, r1) # rest)) ! length pre =
     (fst (post_contact x (snd (serve x st pre)) t1 r1),
      fst (snd (post_contact x (snd (serve x st pre)) t1 r1)))"
proof -
  have "fst (serve x st (pre @ (t1, r1) # rest)) =
      fst (serve x st pre) @ fst (serve x (snd (serve x st pre)) ((t1, r1) # rest))"
    by (simp add: serve_append del: serve.simps(2))
  then show ?thesis
    using length_serve [of x st pre]
    by (simp add: nth_append serve_Cons del: serve.simps(2))
qed

lemma serve_counts_start: "snd (serve x Map.empty pre) k = Some (c, s) \<Longrightarrow> 1 \<le> c"
  using serve_counts [where st = Map.empty and x = x and evs = pre] by simp

lemma serve_record_after:
  assumes "admitted (fst (post_contact x (snd (serve x Map.empty pre)) t1 r1))"
  shows "snd (serve x Map.empty (pre @ [(t1, r1)])) (get_remote_address r1) = Some (1, t1)"
proof -
  have "snd (serve x Map.empty (pre @ [(t1, r1)])) =
      snd (snd (post_contact x (snd (serve x Map.empty pre)) t1 r1))"
    by (simp add: serve_append serve_Cons del: serve.simps(2))
  then show ?thesis
    using post_contact_admitted_record [where st = "snd (serve x Map.empty pre)" and request = r1
        and x = x and now = t1] serve_counts_start [of x pre] assms
    by simp
qed

lemma serve_in_window:
  assumes "sorted (map fst (pre @ (t1, r1) # mid @ [(t2, r2)]))"
    and "get_remote_address r2 = get_remote_address r1"
    and "admitted (fst (post_contact x (snd (serve x Map.empty pre)) t1 r1))"
    and "t2 < t1 + 3600"
  shows "last (fst (serve x Map.empty (pre @ (t1, r1) # mid @ [(t2, r2)]))) =
     (case validate (EmailStr x) (body r2) of
        Inl errs \<Rightarrow> (Response 422 (JObj [(''detail'', JArr (map error_json errs))]), [])
      | Inr f \<Rightarrow> (Response 429 (JObj [(''error'', JStr ''Rate limit exceeded: 1 per 1 hour'')]), []))"
proof -
  let ?s0 = "snd (serve x Map.empty pre)"
  let ?rest = "(t1, r1) # mid @ [(t2, r2)]"
  have inv: "\<And>k c s. ?s0 k = Some (c, s) \<Longrightarrow> 1 \<le> c"
    by (rule serve_counts_start)
  have split: "fst (serve x Map.empty (pre @ ?rest)) = fst (serve x Map.empty pre) @ fst (serve x ?s0 ?rest)"
    by (simp add: serve_append del: serve.simps(2))
  have srt: "sorted (map fst ?rest)"
    using assms(1) by (simp add: sorted_append)
  have ne: "fst (serve x ?s0 ?rest) \<noteq> []"
    by (simp add: serve_Cons del: serve.simps(2))
  have lst: "last (fst (serve x Map.empty (pre @ ?rest))) = last (fst (serve x ?s0 ?rest))"
    unfolding split using ne by simp
  show ?thesis
    unfolding lst by (rule serve_two [OF inv srt assms(2,3,4)])
qed

lemma status_500_admitted: "status_code r = 500 \<Longrightarrow> admitted r"
  by (simp add: admitted_def)

text \<open>
  Claim C1, as stated, fails: a second request from the same address ten minutes after
  an admitted one, with a body that does not validate, is answered 422 and not 429.
\<close>
theorem malformed_in_window_gets_422:
  "fst (hd (fst (serve example_ext Map.empty [(0, john_request), (600, empty_request)]))) =
     Response 200 (success_body john_form) \<and>
   get_remote_address empty_request = get_remote_address john_request \<and>
   status_code (fst (last (fst (serve example_ext Map.empty [(0, john_request), (600, empty_request)])))) = 422"
  by (simp add: serve_Cons post_contact_john_first post_contact_empty_request address_john address_empty
      del: serve.simps(2))

text \<open>
  Claim C1, amended.  In every sequence of requests handled since process start, in
  the order of their times, a request that comes from the address of an earlier
  admitted request less than 3600 seconds after it is not admitted: it is answered
  429 when its body validates and 422, before the limiter is consulted, when it does
  not, and no call to the provider is made for it.  Hence at most one request of an
  address is admitted in the hour that starts with an admitted one.
\<close>
theorem one_admission_per_window:
  assumes "sorted (map fst (pre @ (t1, r1) # mid @ [(t2, r2)]))"
    and "get_remote_address r2 = get_remote_address r1"
    and "admitted (fst (fst (serve x Map.empty (pre @ (t1, r1) # mid @ [(t2, r2)])) ! length pre))"
    and "t2 < t1 + 3600"
  shows "last (fst (serve x Map.empty (pre @ (t1, r1) # mid @ [(t2, r2)]))) =
     (case validate (EmailStr x) (body r2) of
        Inl errs \<Rightarrow> (Response 422 (JObj [(''detail'', JArr (map error_json errs))]), [])
      | Inr f \<Rightarrow> (Response 429 (JObj [(''error'', JStr ''Rate limit exceeded: 1 per 1 hour'')]), []))
     \<and> \<not> admitted (fst (last (fst (serve x Map.empty (pre @ (t1, r1) # mid @ [(t2, r2)])))))"
proof -
  have adm: "admitted (fst (post_contact x (snd (serve x Map.empty pre)) t1 r1))"
    using assms(3) by (simp add: serve_nth_prefix del: serve.simps(2))
  show ?thesis
    unfolding serve_in_window [OF assms(1,2) adm assms(4)]
    by (simp add: admitted_def split: sum.splits)
qed

theorem one_admission_per_window_witness:
  "sorted (map fst [(0 :: nat, john_request), (600, john_request)]) \<and>
   admitted (fst (fst (serve example_ext Map.empty [(0, john_request), (600, john_request)]) ! 0)) \<and>
   (600 :: nat) < 0 + 3600 \<and>
   last (fst (serve example_ext Map.empty [(0, john_request), (600, john_request)])) =
     (Response 429 (JObj [(''error'', JStr ''Rate limit exceeded: 1 per 1 hour'')]), [])"
proof -
  have a: "sorted (map fst ([] @ (0 :: nat, john_request) # [] @ [(600, john_request)]))"
    by simp
  have b: "admitted (fst (fst (serve example_ext Map.empty ([] @ (0, john_request) # [] @ [(600, john_request)]))
      ! length ([] :: (nat \<times> Request) list)))"
    by (simp add: serve_Cons post_contact_john_first admitted_def del: serve.simps(2))
  have c: "(600 :: nat) < 0 + 3600"
    by simp
  from one_admission_per_window [OF a refl b c] a b c show ?thesis
    by (simp add: validate_john_request del: serve.simps(2))
qed

lemma hit_example_over_limit:
  "hit [''203.0.113.7'' \<mapsto> (1, 0)] ''203.0.113.7'' 60 = (False, [''203.0.113.7'' \<mapsto> (1, 0)])"
  by (rule hit_in_window [where c = 1 and s = 0]) simp_all

text \<open>
  Claim C3, as stated, fails: a request that is over the limit of its address and whose
  body does not validate is answered 422, not 429.
\<close>
theorem over_limit_malformed_gets_422:
  "\<not> fst (hit [''203.0.113.7'' \<mapsto> (1, 0)] (get_remote_address empty_request) 60) \<and>
   status_code (fst (post_contact example_ext [''203.0.113.7'' \<mapsto> (1, 0)] 60 empty_request)) = 422"
  unfolding address_empty hit_example_over_limit post_contact_empty_request by simp

text \<open>
  Claim C3, amended.  The steps of a request come in the order validation, limiter,
  dispatch, response.  A body that does not validate is answered 422 with the limiter's
  records untouched and no provider call, whatever the limiter would say.  A valid body
  whose address is over the limit is answered 429 with no provider call.  A valid body
  that the limiter admits goes to the handler: the limiter's record is updated, the
  provider calls are those of the dispatcher, and the answer is 200 or 500.  So a 429 is
  only ever given to a body that validated, and the provider is only ever called for a
  validated and admitted request.
\<close>
theorem validation_before_limiter:
  "(validate (EmailStr x) (body request) = Inl errs \<longrightarrow>
      post_contact x st now request =
        (Response 422 (JObj [(''detail'', JArr (map error_json errs))]), [], st)) \<and>
   (validate (EmailStr x) (body request) = Inr f \<and> \<not> fst (hit st (get_remote_address request) now) \<longrightarrow>
      post_contact x st now request =
        (Response 429 (JObj [(''error'', JStr ''Rate limit exceeded: 1 per 1 hour'')]), [], st)) \<and>
   (validate (EmailStr x) (body request) = Inr f \<and> fst (hit st (get_remote_address request) now) \<longrightarrow>
      post_contact x st now request =
        (respond (fst (contact x f)), snd (contact x f), snd (hit st (get_remote_address request) now)) \<and>
      snd (contact x f) = snd (send_email_via_brevo x f) \<and>
      (status_code (respond (fst (contact x f))) = 200 \<or> status_code (respond (fst (contact x f))) = 500)) \<and>
   (status_code (fst (post_contact x st now request)) = 429 \<longrightarrow>
      (\<exists>g. validate (EmailStr x) (body request) = Inr g)) \<and>
   (fst (snd (post_contact x st now request)) \<noteq> [] \<longrightarrow>
      (\<exists>g. validate (EmailStr x) (body request) = Inr g) \<and> fst (hit st (get_remote_address request) now))"
proof -
  have a: "validate (EmailStr x) (body request) = Inl errs \<longrightarrow>
      post_contact x st now request =
        (Response 422 (JObj [(''detail'', JArr (map error_json errs))]), [], st)"
    by (simp add: post_contact_invalid)
  have b: "validate (EmailStr x) (body request) = Inr f \<and> \<not> fst (hit st (get_remote_address request) now) \<longrightarrow>
      post_contact x st now request =
        (Response 429 (JObj [(''error'', JStr ''Rate limit exceeded: 1 per 1 hour'')]), [], st)"
    by (simp add: post_contact_valid limited_contact_denied)
  have c1: "snd (contact x f) = snd (send_email_via_brevo x f)"
    by (auto simp: contact_def split: prod.splits sum.splits exn.splits)
  have c: "validate (EmailStr x) (body request) = Inr f \<and> fst (hit st (get_remote_address request) now) \<longrightarrow>
      post_contact x st now request =
        (respond (fst (contact x f)), snd (contact x f), snd (hit st (get_remote_address request) now)) \<and>
      snd (contact x f) = snd (send_email_via_brevo x f) \<and>
      (status_code (respond (fst (contact x f))) = 200 \<or> status_code (respond (fst (contact x f))) = 500)"
    using c1 respond_contact_status [of x f]
    by (simp add: post_contact_valid limited_contact_admitted)
  have d: "status_code (fst (post_contact x st now request)) = 429 \<longrightarrow>
      (\<exists>g. validate (EmailStr x) (body request) = Inr g)"
    by (cases "validate (EmailStr x) (body request)") (simp_all add: post_contact_invalid)
  have e: "fst (snd (post_contact x st now request)) \<noteq> [] \<longrightarrow>
      (\<exists>g. validate (EmailStr x) (body request) = Inr g) \<and> fst (hit st (get_remote_address request) now)"
  proof (cases "validate (EmailStr x) (body request)")
    case (Inl errs)
    then show ?thesis by (simp add: post_contact_invalid)
  next
    case (Inr g)
    show ?thesis
      by (cases "fst (hit st (get_remote_address request) now)")
        (simp_all add: post_contact_valid [OF Inr] limited_contact_denied Inr)
  qed
  from a b c d e show ?thesis by blast
qed

theorem validation_before_limiter_witness:
  "validate (EmailStr example_ext) (body empty_request) =
     Inl [(''name'', missing), (''email'', missing), (''subject'', missing), (''message'', missing)] \<and>
   \<not> fst (hit [''203.0.113.7'' \<mapsto> (1, 0)] (get_remote_address empty_request) 60) \<and>
   post_contact example_ext [''203.0.113.7'' \<mapsto> (1, 0)] 60 empty_request =
     (Response 422 (JObj [(''detail'', JArr (map error_json
        [(''name'', missing), (''email'', missing), (''subject'', missing), (''message'', missing)]))]),
      [], [''203.0.113.7'' \<mapsto> (1, 0)]) \<and>
   validate (EmailStr example_ext) (body john_request) = Inr john_form \<and>
   \<not> fst (hit [''203.0.113.7'' \<mapsto> (1, 0)] (get_remote_address john_request) 60) \<and>
   post_contact example_ext [''203.0.113.7'' \<mapsto> (1, 0)] 60 john_request =
     (Response 429 (JObj [(''error'', JStr ''Rate limit exceeded: 1 per 1 hour'')]), [],
      [''203.0.113.7'' \<mapsto> (1, 0)]) \<and>
   fst (hit Map.empty (get_remote_address john_request) 0) \<and>
   fst (snd (post_contact example_ext Map.empty 0 john_request)) \<noteq> []"
proof -
  have v1: "validate (EmailStr example_ext) (body empty_request) =
     Inl [(''name'', missing), (''email'', missing), (''subject'', missing), (''message'', missing)]"
    by (rule validate_empty_request)
  have h1: "\<not> fst (hit [''203.0.113.7'' \<mapsto> (1, 0)] (get_remote_address empty_request) 60)"
    unfolding address_empty hit_example_over_limit by simp
  have h2: "\<not> fst (hit [''203.0.113.7'' \<mapsto> (1, 0)] (get_remote_address john_request) 60)"
    unfolding address_john hit_example_over_limit by simp
  have h3: "fst (hit Map.empty (get_remote_address john_request) 0)"
    by (simp add: hit_empty)
  have c3: "fst (snd (post_contact example_ext Map.empty 0 john_request)) \<noteq> []"
    by (simp add: post_contact_john_first)
  from validation_before_limiter [of example_ext empty_request
        "[(''name'', missing), (''email'', missing), (''subject'', missing), (''message'', missing)]"
        "[''203.0.113.7'' \<mapsto> (1, 0)]" 60 john_form]
    validation_before_limiter [of example_ext john_request "[]" "[''203.0.113.7'' \<mapsto> (1, 0)]" 60 john_form]
    v1 h1 h2 h3 c3 validate_john_request
  show ?thesis by blast
qed

text \<open>
  Claim C9, as stated, fails: when the window of an address has elapsed and its next
  request has a body that does not validate, the request is answered 422 and the
  record of the address is not reset.
\<close>
theorem malformed_after_window_not_admitted:
  "(0 :: nat) + 3600 < 3601 \<and>
   post_contact example_ext [''203.0.113.7'' \<mapsto> (1, 0)] 3601 empty_request =
     (Response 422 (JObj [(''detail'', JArr (map error_json
        [(''name'', missing), (''email'', missing), (''subject'', missing), (''message'', missing)]))]),
      [], [''203.0.113.7'' \<mapsto> (1, 0)])"
  by (simp add: post_contact_empty_request)

text \<open>
  Claim C9, amended.  When the record of an address started more than 3600 seconds
  ago, the next request from that address whose body validates is admitted: it is
  handed to the handler and answered by it, and the record becomes one admitted
  request in a window starting now.  A body that does not validate is answered 422
  and leaves the record as it was.
\<close>
theorem admitted_again_after_window:
  assumes "st (get_remote_address request) = Some (c, s)" and "s + 3600 < now"
  shows "(validate (EmailStr x) (body request) = Inr f \<longrightarrow>
            admitted (fst (post_contact x st now request)) \<and>
            fst (post_contact x st now request) = respond (fst (contact x f)) \<and>
            fst (snd (post_contact x st now request)) = snd (send_email_via_brevo x f) \<and>
            snd (snd (post_contact x st now request)) = st(get_remote_address request \<mapsto> (1, now))) \<and>
         (validate (EmailStr x) (body request) = Inl errs \<longrightarrow>
            post_contact x st now request =
              (Response 422 (JObj [(''detail'', JArr (map error_json errs))]), [], st))"
proof -
  have h: "hit st (get_remote_address request) now = (True, st(get_remote_address request \<mapsto> (1, now)))"
    using hit_elapsed [where st = st and k = "get_remote_address request" and c = c and s = s and now = now]
      assms by simp
  have hf: "fst (hit st (get_remote_address request) now)"
    using h by simp
  have c1: "snd (contact x f) = snd (send_email_via_brevo x f)"
    by (auto simp: contact_def split: prod.splits sum.splits exn.splits)
  have adm: "admitted (respond (fst (contact x f)))"
    using respond_contact_status [of x f] by (auto simp: admitted_def)
  show ?thesis
    using adm c1
    by (simp add: post_contact_invalid post_contact_valid limited_contact_admitted [OF hf] h)
qed

theorem admitted_again_after_window_witness:
  "[''203.0.113.7'' \<mapsto> (1 :: nat, 0 :: nat)] (get_remote_address john_request) = Some (1, 0) \<and>
   (0 :: nat) + 3600 < 3601 \<and>
   validate (EmailStr example_ext) (body john_request) = Inr john_form \<and>
   admitted (fst (post_contact example_ext [''203.0.113.7'' \<mapsto> (1, 0)] 3601 john_request)) \<and>
   snd (snd (post_contact example_ext [''203.0.113.7'' \<mapsto> (1, 0)] 3601 john_request)) =
     [''203.0.113.7'' \<mapsto> (1, 0)](get_remote_address john_request \<mapsto> (1, 3601))"
proof -
  have a: "[''203.0.113.7'' \<mapsto> (1 :: nat, 0 :: nat)] (get_remote_address john_request) = Some (1, 0)"
    unfolding address_john by simp
  have b: "(0 :: nat) + 3600 < 3601"
    by simp
  from admitted_again_after_window [where st = "[''203.0.113.7'' \<mapsto> (1, 0)]" and request = john_request
      and c = 1 and s = 0 and now = 3601 and x = example_ext and f = john_form and errs = "[]"]
    a b validate_john_request
  show ?thesis by blast
qed

text \<open>
  Claim C10, as stated, fails in its last part: after a request answered 500 for a
  failed dispatch, a request from the same address ten minutes later whose body does
  not validate is answered 422, not 429.
\<close>
theorem malformed_after_failure_gets_422:
  "fst (hd (fst (serve failing_ext Map.empty [(0, john_request), (600, empty_request)]))) =
     Response 500 (JObj [(''detail'', JStr ''Failed to send email: (401) Reason: Unauthorized'')]) \<and>
   get_remote_address empty_request = get_remote_address john_request \<and>
   status_code (fst (last (fst (serve failing_ext Map.empty [(0, john_request), (600, empty_request)])))) = 422"
  by (simp add: serve_Cons post_contact_john_failing post_contact_empty_request address_john address_empty
      del: serve.simps(2))

text \<open>
  Claim C10, amended.  The quota of the address is consumed before the dispatch and
  stays consumed when the dispatch fails: in every sequence of requests handled since
  process start, once a request has been answered 500 the record of its address is
  one admitted request in a window starting at that request, and a later request from
  the address less than 3600 seconds after it is rejected with no provider call, with
  429 when its body validates and with 422 when it does not.
\<close>
theorem quota_consumed_by_failed_dispatch:
  assumes "sorted (map fst (pre @ (t1, r1) # mid @ [(t2, r2)]))"
    and "get_remote_address r2 = get_remote_address r1"
    and "status_code (fst (fst (serve x Map.empty (pre @ (t1, r1) # mid @ [(t2, r2)])) ! length pre)) = 500"
    and "t2 < t1 + 3600"
  shows "snd (serve x Map.empty (pre @ [(t1, r1)])) (get_remote_address r1) = Some (1, t1) \<and>
     last (fst (serve x Map.empty (pre @ (t1, r1) # mid @ [(t2, r2)]))) =
       (case validate (EmailStr x) (body r2) of
          Inl errs \<Rightarrow> (Response 422 (JObj [(''detail'', JArr (map error_json errs))]), [])
        | Inr f \<Rightarrow> (Response 429 (JObj [(''error'', JStr ''Rate limit exceeded: 1 per 1 hour'')]), []))"
proof -
  have "status_code (fst (post_contact x (snd (serve x Map.empty pre)) t1 r1)) = 500"
    using assms(3) by (simp add: serve_nth_prefix del: serve.simps(2))
  then have adm: "admitted (fst (post_contact x (snd (serve x Map.empty pre)) t1 r1))"
    by (rule status_500_admitted)
  show ?thesis
    using serve_record_after [OF adm] serve_in_window [OF assms(1,2) adm assms(4)]
    by simp
qed

theorem quota_consumed_by_failed_dispatch_witness:
  "sorted (map fst [(0 :: nat, john_request), (600, john_request)]) \<and>
   status_code (fst (fst (serve failing_ext Map.empty [(0, john_request), (600, john_request)]) ! 0)) = 500 \<and>
   (600 :: nat) < 0 + 3600 \<and>
   snd (serve failing_ext Map.empty [(0, john_request)]) (get_remote_address john_request) = Some (1, 0) \<and>
   last (fst (serve failing_ext Map.empty [(0, john_request), (600, john_request)])) =
     (Response 429 (JObj [(''error'', JStr ''Rate limit exceeded: 1 per 1 hour'')]), [])"
proof -
  have a: "sorted (map fst ([] @ (0 :: nat, john_request) # [] @ [(600, john_request)]))"
    by simp
  have b: "status_code (fst (fst (serve failing_ext Map.empty
      ([] @ (0, john_request) # [] @ [(600, john_request)])) ! length ([] :: (nat \<times> Request) list))) = 500"
    by (simp add: serve_Cons post_contact_john_failing del: serve.simps(2))
  have c: "(600 :: nat) < 0 + 3600"
    by simp
  have v: "validate (EmailStr failing_ext) (body john_request) = Inr john_form"
    by (simp add: failing_ext_simps validate_john_request)
  from quota_consumed_by_failed_dispatch [OF a refl b c] a b c show ?thesis
    by (simp add: v del: serve.simps(2))
qed

end
